theory Spec2Isabelle
  imports Complex_Main "HOL-Library.Sublist"
begin

section \<open>Parcel feasibility pipeline: data model\<close>

text \<open>
  The engines of \<^verbatim>\<open>backend/app\<close> exchange Python dictionaries. Each dictionary is a
  record here, one field per key the code reads or writes. A key read with
  \<^verbatim>\<open>d.get(k, default)\<close> is an \<open>option\<close> field (\<open>None\<close>: the key is missing) read through
  \<open>dict_get\<close>; a flag read by truth value with \<^verbatim>\<open>d.get(k)\<close> is a \<open>bool\<close> field, a missing
  key reading as \<open>False\<close>. Python floats are idealised as \<open>real\<close>, Python ints are \<open>int\<close>.
  Every \<^verbatim>\<open>raise\<close> the code can reach is a value \<open>Inl e\<close> of a sum type.
\<close>

datatype py_error = TypeError | ValueError | ZeroDivisionError

definition dict_get :: "'a option \<Rightarrow> 'a \<Rightarrow> 'a" where
  "dict_get v d = (case v of None \<Rightarrow> d | Some x \<Rightarrow> x)"

text \<open>Python's \<^verbatim>\<open>sub in s\<close> on strings: \<open>sub\<close> occurs in \<open>s\<close> as a contiguous run.\<close>

fun py_in_str :: "string \<Rightarrow> string \<Rightarrow> bool" where
  "py_in_str sub [] = (sub = [])"
| "py_in_str sub (c # cs) = (prefix sub (c # cs) \<or> py_in_str sub cs)"

text \<open>
  An f-string is the list of its parts: literal text and formatted numbers, each with its
  format (\<^verbatim>\<open>{x:.0f}\<close>, \<^verbatim>\<open>{x:.1f}\<close>, or plain \<^verbatim>\<open>{x}\<close>).
\<close>

datatype frag = Lit string | Fmt_0f real | Fmt_1f real | Fmt_repr real

type_synonym message = "frag list"

text \<open>
  Python's \<^verbatim>\<open>round(x, ndigits)\<close> rounds the double that holds \<open>x\<close>, not the real
  number: it returns the multiple of \<open>10 ^ -ndigits\<close> nearest to that double. For the values
  rounded here, which lie between 0 and 1, the double is far less than a thousandth of the
  last kept digit away from \<open>x\<close>. So the result is the multiple of \<open>10 ^ -ndigits\<close> nearest
  to \<open>x\<close>, except that within a thousandth of a tie the binary representation decides
  which neighbour comes out. \<open>py_round_admits x ndigits r\<close> holds for every \<open>r\<close> the call can
  return.
\<close>

definition py_round_admits :: "real \<Rightarrow> nat \<Rightarrow> real \<Rightarrow> bool" where
  "py_round_admits x ndigits r =
     (let k = \<lfloor>r * 10 ^ ndigits\<rfloor>
      in of_int k = r * 10 ^ ndigits
         \<and> \<bar>of_int k - x * 10 ^ ndigits\<bar> \<le> 1 / 2 + 1 / 1000)"

subsection \<open>Configuration (\<^verbatim>\<open>config/settings.py\<close>)\<close>

record settings =
  BUSHFIRE_WEIGHT :: int
  FLOOD_WEIGHT :: int
  HERITAGE_WEIGHT :: int
  GEOTECH_WEIGHT :: int
  BIODIVERSITY_WEIGHT :: int
  MISC_WEIGHT :: int
  CDC_MAX_SLOPE_PERCENT :: real
  CDC_MAX_BAL :: int
  MIN_LOT_AREA_DUAL_OCC_SQM :: real
  MIN_FRONTAGE_DUAL_OCC_M :: real
  MIN_FSR_TERRACE :: real
  MIN_FSR_MULTI_DWELLING :: real
  DEFAULT_FRONT_SETBACK_M :: real
  DEFAULT_REAR_SETBACK_M :: real
  DEFAULT_SIDE_SETBACK_MIN_M :: real
  DEEP_SOIL_PERCENTAGE :: real
  LANDSCAPED_AREA_PERCENTAGE :: real
  AVERAGE_UNIT_SIZE_TOWNHOUSE_SQM :: real
  AVERAGE_UNIT_SIZE_APARTMENT_SQM :: real

text \<open>\<^verbatim>\<open>get_settings()\<close>: the singleton with the dataclass defaults.\<close>

definition get_settings :: settings where
  "get_settings =
     \<lparr> BUSHFIRE_WEIGHT = 3, FLOOD_WEIGHT = 3, HERITAGE_WEIGHT = 4, GEOTECH_WEIGHT = 2,
       BIODIVERSITY_WEIGHT = 1, MISC_WEIGHT = 1,
       CDC_MAX_SLOPE_PERCENT = 20, CDC_MAX_BAL = 40,
       MIN_LOT_AREA_DUAL_OCC_SQM = 600, MIN_FRONTAGE_DUAL_OCC_M = 15,
       MIN_FSR_TERRACE = 7 / 10, MIN_FSR_MULTI_DWELLING = 7 / 10,
       DEFAULT_FRONT_SETBACK_M = 6, DEFAULT_REAR_SETBACK_M = 6,
       DEFAULT_SIDE_SETBACK_MIN_M = 9 / 10,
       DEEP_SOIL_PERCENTAGE = 15 / 100, LANDSCAPED_AREA_PERCENTAGE = 30 / 100,
       AVERAGE_UNIT_SIZE_TOWNHOUSE_SQM = 100, AVERAGE_UNIT_SIZE_APARTMENT_SQM = 70 \<rparr>"

subsection \<open>Dictionaries passed between the engines\<close>

text \<open>The value under \<^verbatim>\<open>"bushfire_category"\<close>: \<^verbatim>\<open>None\<close> (as the mock sets it) or a string.\<close>

datatype category_value = PyNone | PyStr string

record constraints =
  bushfire_prone :: bool
  bushfire_category :: "category_value option"
  flood_prone :: bool
  flood_notes :: "category_value option"
  acid_sulfate_soil_class :: "string option"
  heritage_item :: bool
  heritage_conservation_area :: bool
  foreshore_building_line :: bool
  riparian_buffer :: bool
  biodiversity :: bool
  geotech_landslip_risk :: "string option"
  other_overlays :: "string list option"

record parcel_data =
  lot_number :: string
  plan_number :: string
  plan_type :: string
  rpd :: string
  parcel_type :: string
  area_sqm :: "real option"
  source_dataset :: string
  spatial_accuracy_code :: string

record geometry_data =
  frontage_m :: "real option"
  regularity_index :: "real option"
  is_corner_lot :: bool

record slope_data =
  mean_gradient_percent :: "real option"
  falls_to_street :: "bool option"

record envelope_data =
  max_gfa_sqm :: "real option"
  fsr_control :: "real option"
  max_height_m :: "real option"

record typologies =
  dual_occupancy :: bool
  terrace_row :: bool
  manor_house :: bool
  multi_dwelling :: bool
  apartments :: bool

record constraint_severity =
  bushfire_severity :: int
  flood_severity :: int
  heritage_severity :: int
  geotech_severity :: int
  biodiversity_severity :: int
  total_score :: "int option"
  rating :: string

record cdc_potential =
  is_potentially_cdc_compliant :: bool
  likely_pathway :: string
  blocking_constraints :: "message list"

record da_potential =
  is_likely_supportable :: bool
  key_issues :: "string list"
  recommended_studies :: "string list"
  red_flags :: "string list"

record yield_data =
  dual_occ_feasible :: bool
  terrace_row_feasible :: bool
  manor_house_feasible :: bool
  multi_dwelling_feasible :: bool
  indicative_dwellings_count :: int
  primary_typology :: string
  yield_notes :: message

text \<open>
  A Shapely \<^verbatim>\<open>Polygon\<close>: the exterior ring and the two properties the geometry engine
  reads, \<^verbatim>\<open>polygon.area\<close> and \<^verbatim>\<open>polygon.length\<close>, which the library computes.
\<close>

record polygon =
  exterior_coords :: "(real \<times> real) list"
  poly_area :: real
  poly_length :: real

record input_data =
  query_type :: string
  raw_input :: string
  resolved_address :: "string option"
  resolved_lot_plan :: string
  resolved_coordinates :: "real \<times> real"

section \<open>Constraint severity (\<^verbatim>\<open>analysis/constraints_engine.py\<close>)\<close>

text \<open>\<^verbatim>\<open>evaluate_constraints\<close> ignores its arguments and returns the mock constraint set.\<close>

definition evaluate_constraints :: "polygon \<Rightarrow> geometry_data \<Rightarrow> constraints" where
  "evaluate_constraints parcel_geometry gd =
     \<lparr> bushfire_prone = False, bushfire_category = Some PyNone,
       flood_prone = False, flood_notes = Some PyNone,
       acid_sulfate_soil_class = Some ''None'',
       heritage_item = False, heritage_conservation_area = False,
       foreshore_building_line = False, riparian_buffer = False,
       biodiversity = False, geotech_landslip_risk = Some ''Low'',
       other_overlays = Some [] \<rparr>"

text \<open>Lines 104-114 of \<^verbatim>\<open>compute_constraint_severity\<close>: the overall rating of a score.\<close>

definition constraint_rating :: "int \<Rightarrow> string" where
  "constraint_rating tscore =
     (if tscore = 0 then ''None''
      else if tscore \<le> 3 then ''Low''
      else if tscore \<le> 7 then ''Medium''
      else if tscore \<le> 12 then ''High''
      else ''Red-Flag'')"

text \<open>
  The bushfire branch: \<^verbatim>\<open>"Category 1" in category\<close> raises \<^verbatim>\<open>TypeError\<close> when the value
  stored under \<^verbatim>\<open>"bushfire_category"\<close> is \<^verbatim>\<open>None\<close>.
\<close>

definition bushfire_severity_of :: "constraints \<Rightarrow> py_error + int" where
  "bushfire_severity_of c =
     (if bushfire_prone c then
        (case dict_get (bushfire_category c) (PyStr '''') of
           PyNone \<Rightarrow> Inl TypeError
         | PyStr category \<Rightarrow>
             Inr (if py_in_str ''Category 1'' category
                     \<or> py_in_str ''Vegetation Category 1'' category then 3
                  else if py_in_str ''Category 2'' category then 2
                  else 1))
      else Inr 0)"

definition geotech_table :: "string \<rightharpoonup> int" where
  "geotech_table = map_of [(''Very High'', 3), (''High'', 2), (''Moderate'', 1), (''Low'', 0)]"

definition compute_constraint_severity ::
    "settings \<Rightarrow> constraints \<Rightarrow> py_error + constraint_severity" where
  "compute_constraint_severity st c =
     (case bushfire_severity_of c of
        Inl e \<Rightarrow> Inl e
      | Inr bushfire \<Rightarrow>
          (let flood = (if flood_prone c then 3 else 0);
               heritage = (if heritage_item c then 3
                           else if heritage_conservation_area c then 2
                           else 0);
               geotech = dict_get (geotech_table (dict_get (geotech_landslip_risk c) ''Low'')) 0;
               biodiv = (if biodiversity c then 2 else 0);
               misc = int (length (dict_get (other_overlays c) []));
               tscore = BUSHFIRE_WEIGHT st * bushfire
                     + FLOOD_WEIGHT st * flood
                     + HERITAGE_WEIGHT st * heritage
                     + GEOTECH_WEIGHT st * geotech
                     + BIODIVERSITY_WEIGHT st * biodiv
                     + MISC_WEIGHT st * misc
           in Inr \<lparr> bushfire_severity = bushfire, flood_severity = flood,
                    heritage_severity = heritage, geotech_severity = geotech,
                    biodiversity_severity = biodiv, total_score = Some tscore,
                    rating = constraint_rating tscore \<rparr>))"

section \<open>Risk rating (\<^verbatim>\<open>analysis/risk_engine.py\<close>)\<close>

text \<open>Lines 29-51 of \<^verbatim>\<open>compute_risk_rating\<close>: the total risk score.\<close>

definition risk_total_score :: "constraint_severity \<Rightarrow> slope_data \<Rightarrow> geometry_data \<Rightarrow> int" where
  "risk_total_score sev slope geom =
     (let base_score = dict_get (total_score sev) 0;
          geometry_score = 0;
          mean_gradient = dict_get (mean_gradient_percent slope) 0;
          geometry_score = (if mean_gradient > 25 then geometry_score + 3
                            else if mean_gradient > 15 then geometry_score + 2
                            else geometry_score);
          regularity = dict_get (regularity_index geom) 1;
          geometry_score = (if regularity < 75 / 100 then geometry_score + 1
                            else geometry_score)
      in base_score + geometry_score)"

text \<open>Lines 53-63: the rating of the total score.\<close>

definition risk_rating :: "int \<Rightarrow> string" where
  "risk_rating tscore =
     (if tscore = 0 then ''None''
      else if tscore \<le> 3 then ''Low''
      else if tscore \<le> 7 then ''Medium''
      else if tscore \<le> 12 then ''High''
      else ''Red-Flag'')"

definition compute_risk_rating ::
    "constraints \<Rightarrow> constraint_severity \<Rightarrow> slope_data \<Rightarrow> geometry_data \<Rightarrow> string" where
  "compute_risk_rating c sev slope geom = risk_rating (risk_total_score sev slope geom)"

section \<open>Fast-track pathway (\<^verbatim>\<open>planning/cdc_low_rise.py\<close>)\<close>

definition evaluate_cdc_potential ::
    "settings \<Rightarrow> parcel_data \<Rightarrow> geometry_data \<Rightarrow> constraints \<Rightarrow> slope_data \<Rightarrow> cdc_potential" where
  "evaluate_cdc_potential st pd gd c sd =
     (let blocking = [];
          blocking = (if bushfire_prone c
                      then blocking @ [[Lit ''Bushfire (BAL > 40 requires report)'']]
                      else blocking);
          blocking = (if flood_prone c
                      then blocking @ [[Lit ''Flood control lot'']]
                      else blocking);
          blocking = (if heritage_item c
                      then blocking @ [[Lit ''Heritage Item'']]
                      else blocking);
          blocking = (if heritage_conservation_area c
                      then blocking @ [[Lit ''Heritage Conservation Area'']]
                      else blocking);
          blocking = (if foreshore_building_line c
                      then blocking @ [[Lit ''Foreshore Building Line'']]
                      else blocking);
          blocking = (if riparian_buffer c
                      then blocking @ [[Lit ''Riparian Buffer'']]
                      else blocking);
          parcel_area = dict_get (area_sqm pd) 0;
          frontage = dict_get (frontage_m gd) 0;
          blocking = (if parcel_area < MIN_LOT_AREA_DUAL_OCC_SQM st
                      then blocking @ [[Lit ''Insufficient lot area ('', Fmt_0f parcel_area,
                                        Lit '' sqm)'']]
                      else blocking);
          blocking = (if frontage < MIN_FRONTAGE_DUAL_OCC_M st
                      then blocking @ [[Lit ''Insufficient frontage ('', Fmt_1f frontage,
                                        Lit '' m)'']]
                      else blocking);
          mean_gradient = dict_get (mean_gradient_percent sd) 0;
          blocking = (if mean_gradient > CDC_MAX_SLOPE_PERCENT st
                      then blocking @ [[Lit ''Slope too steep for CDC ('', Fmt_1f mean_gradient,
                                        Lit ''%)'']]
                      else blocking);
          compliant = (length blocking = 0);
          pathway = (if compliant then ''CDC Possible'' else ''DA Only'')
      in \<lparr> is_potentially_cdc_compliant = compliant, likely_pathway = pathway,
           blocking_constraints = blocking \<rparr>)"

section \<open>Full-application pathway (\<^verbatim>\<open>planning/da_guidance.py\<close>)\<close>

text \<open>
  \<^verbatim>\<open>list(dict.fromkeys(xs))\<close>: the keys are inserted one by one, a key already present
  keeping its place.
\<close>

fun fromkeys_acc :: "'a list \<Rightarrow> 'a list \<Rightarrow> 'a list" where
  "fromkeys_acc ks [] = ks"
| "fromkeys_acc ks (x # xs) = fromkeys_acc (if x \<in> set ks then ks else ks @ [x]) xs"

definition dict_fromkeys :: "'a list \<Rightarrow> 'a list" where
  "dict_fromkeys xs = fromkeys_acc [] xs"

text \<open>Lines 30-66 of \<^verbatim>\<open>evaluate_da_potential\<close>: the key issues as they are accumulated.\<close>

definition da_issue_list :: "geometry_data \<Rightarrow> constraints \<Rightarrow> slope_data \<Rightarrow> string list" where
  "da_issue_list gd c sd =
     (let issues = [];
          issues = (if bushfire_prone c
                    then issues @ [''Bushfire vegetation setback'']
                    else issues);
          issues = (if flood_prone c
                    then issues @ [''Flood planning and stormwater management'']
                    else issues);
          issues = (if heritage_item c
                    then issues @ [''Heritage significance - strict controls apply'']
                    else if heritage_conservation_area c
                    then issues @ [''Heritage conservation area - streetscape compatibility'']
                    else issues);
          mean_gradient = dict_get (mean_gradient_percent sd) 0;
          issues = (if mean_gradient > 15
                    then issues @ [''Slope and stormwater'']
                    else issues);
          geotech_risk = dict_get (geotech_landslip_risk c) ''Low'';
          issues = (if geotech_risk \<in> set [''High'', ''Very High'']
                    then issues @ [''Geotechnical stability'']
                    else issues);
          regularity = dict_get (regularity_index gd) 1;
          issues = (if regularity < 75 / 100
                    then issues @ [''Irregular lot shape - design challenges'']
                    else issues);
          issues = issues @ [''Streetscape bulk & scale''];
          issues = (if is_corner_lot gd
                    then issues @ [''Corner lot - secondary street setbacks'']
                    else issues)
      in issues)"

definition evaluate_da_potential ::
    "parcel_data \<Rightarrow> geometry_data \<Rightarrow> constraints \<Rightarrow> slope_data \<Rightarrow> string list \<Rightarrow> da_potential" where
  "evaluate_da_potential pd gd c sd studies =
     (let issues = da_issue_list gd c sd;
          geotech_risk = dict_get (geotech_landslip_risk c) ''Low'';
          supportable = True;
          supportable = (if heritage_item c then False else supportable);
          supportable = (if geotech_risk = ''Very High'' then False else supportable);
          flags = [];
          flags = (if heritage_item c then flags @ [''Heritage Item''] else flags);
          flags = (if geotech_risk = ''Very High''
                   then flags @ [''Very High Landslip Risk'']
                   else flags);
          issues = dict_fromkeys issues
      in \<lparr> is_likely_supportable = supportable, key_issues = take 5 issues,
           recommended_studies = studies, red_flags = flags \<rparr>)"

section \<open>Typology gates (\<^verbatim>\<open>planning/lep_rules.py\<close>)\<close>

definition determine_allowed_typologies ::
    "settings \<Rightarrow> string \<Rightarrow> real \<Rightarrow> geometry_data \<Rightarrow> typologies" where
  "determine_allowed_typologies st zone_code parcel_area_sqm gd =
     (let frontage = dict_get (frontage_m gd) 0;
          ty = \<lparr> dual_occupancy = False, terrace_row = False, manor_house = False,
                 multi_dwelling = False, apartments = False \<rparr>;
          ty = (if zone_code \<in> set [''R1'', ''R2'', ''R3'']
                then (if parcel_area_sqm \<ge> MIN_LOT_AREA_DUAL_OCC_SQM st
                         \<and> frontage \<ge> MIN_FRONTAGE_DUAL_OCC_M st
                      then ty\<lparr>dual_occupancy := True\<rparr> else ty)
                else ty);
          ty = (if zone_code \<in> set [''R1'', ''R3''] then ty\<lparr>terrace_row := True\<rparr> else ty);
          ty = (if zone_code \<in> set [''R1'', ''R2'']
                then (if parcel_area_sqm \<ge> 600 then ty\<lparr>manor_house := True\<rparr> else ty)
                else ty);
          ty = (if zone_code \<in> set [''R1'', ''R3''] then ty\<lparr>multi_dwelling := True\<rparr> else ty);
          ty = (if zone_code \<in> set [''R3'', ''R4''] then ty\<lparr>apartments := True\<rparr> else ty)
      in ty)"

section \<open>Yield (\<^verbatim>\<open>analysis/yield_engine.py\<close>)\<close>

definition generate_yield_notes ::
    "string \<Rightarrow> real \<Rightarrow> real \<Rightarrow> bool \<Rightarrow> constraints \<Rightarrow> message" where
  "generate_yield_notes typology fsr height dual_feasible c =
     (let txt = (if dual_feasible
                 then [Lit ''Standard '', Lit typology, Lit '' envelope with '', Fmt_repr fsr,
                       Lit '':1 FSR and '', Fmt_repr height, Lit '' m height.'']
                 else [Lit typology, Lit '' under LEP controls ('', Fmt_repr fsr,
                       Lit '':1 FSR, '', Fmt_repr height, Lit '' m height).'']);
          txt = (if heritage_item c
                 then txt @ [Lit '' Heritage restrictions significantly limit development potential.'']
                 else if bushfire_prone c
                 then txt @ [Lit '' Bushfire controls may affect building envelope.'']
                 else txt)
      in txt)"

text \<open>
  Lines 66-84 of \<^verbatim>\<open>compute_yield\<close>: the dwelling count and the primary typology. The
  float division raises \<^verbatim>\<open>ZeroDivisionError\<close> on a zero unit size, in the two branches
  that divide.
\<close>

definition select_typology ::
    "settings \<Rightarrow> real \<Rightarrow> bool \<Rightarrow> bool \<Rightarrow> bool \<Rightarrow> bool \<Rightarrow> py_error + (int \<times> string)" where
  "select_typology st max_gfa dual manor multi terrace =
     (if dual then Inr (2, ''Dual Occupancy'')
      else if manor then Inr (3, ''Manor House'')
      else if multi then
        (if AVERAGE_UNIT_SIZE_TOWNHOUSE_SQM st = 0 then Inl ZeroDivisionError
         else (let estimated_units = \<lfloor>max_gfa / AVERAGE_UNIT_SIZE_TOWNHOUSE_SQM st\<rfloor>
               in Inr (max 2 (min 6 estimated_units), ''Multi-Dwelling Housing'')))
      else if terrace then
        (if AVERAGE_UNIT_SIZE_TOWNHOUSE_SQM st = 0 then Inl ZeroDivisionError
         else (let estimated_units = \<lfloor>max_gfa / AVERAGE_UNIT_SIZE_TOWNHOUSE_SQM st\<rfloor>
               in Inr (max 3 (min 6 estimated_units), ''Terrace/Row Housing'')))
      else Inr (1, ''Single Dwelling''))"

definition compute_yield ::
    "settings \<Rightarrow> parcel_data \<Rightarrow> geometry_data \<Rightarrow> envelope_data \<Rightarrow> typologies \<Rightarrow> constraints
       \<Rightarrow> py_error + yield_data" where
  "compute_yield st pd gd env ty c =
     (let parcel_area = dict_get (area_sqm pd) 600;
          frontage = dict_get (frontage_m gd) 15;
          max_gfa = dict_get (max_gfa_sqm env) 0;
          fsr = dict_get (fsr_control env) (6 / 10);
          max_height = dict_get (max_height_m env) (85 / 10);
          dual = (dual_occupancy ty \<and> \<not> heritage_item c
                  \<and> parcel_area \<ge> MIN_LOT_AREA_DUAL_OCC_SQM st
                  \<and> frontage \<ge> MIN_FRONTAGE_DUAL_OCC_M st);
          terrace = (terrace_row ty \<and> fsr \<ge> MIN_FSR_TERRACE st \<and> \<not> heritage_item c);
          manor = (manor_house ty \<and> max_height \<le> 85 / 10 \<and> parcel_area \<ge> 600
                   \<and> \<not> heritage_item c);
          multi = (multi_dwelling ty \<and> fsr \<ge> MIN_FSR_MULTI_DWELLING st \<and> \<not> heritage_item c)
      in case select_typology st max_gfa dual manor multi terrace of
           Inl e \<Rightarrow> Inl e
         | Inr (dwellings, typology) \<Rightarrow>
             Inr \<lparr> dual_occ_feasible = dual, terrace_row_feasible = terrace,
                   manor_house_feasible = manor, multi_dwelling_feasible = multi,
                   indicative_dwellings_count = dwellings, primary_typology = typology,
                   yield_notes = generate_yield_notes typology fsr max_height dual c \<rparr>)"

section \<open>Polygon metrics (\<^verbatim>\<open>geometry/polygon_ops.py\<close>)\<close>

text \<open>
  \<^verbatim>\<open>compute_regularity_index\<close> ends in \<^verbatim>\<open>round(regularity, 3)\<close>, so it is a relation between
  the polygon and what the call can produce: \<open>compute_regularity_index p res\<close> holds when the
  call returns \<open>r\<close> and \<open>res = Inr r\<close>, or raises \<open>e\<close> and \<open>res = Inl e\<close>.
  \<^verbatim>\<open>math.sqrt\<close> raises \<^verbatim>\<open>ValueError\<close> on a negative argument.
\<close>

definition compute_regularity_index :: "polygon \<Rightarrow> py_error + real \<Rightarrow> bool" where
  "compute_regularity_index p res =
     (let area = poly_area p;
          perimeter = poly_length p
      in if perimeter = 0 then res = Inr 0
         else if area < 0 then res = Inl ValueError
         else (let p_min = 4 * sqrt area;
                   regularity_raw = p_min / perimeter;
                   regularity = max 0 (min 1 regularity_raw)
               in case res of
                    Inl e \<Rightarrow> False
                  | Inr r \<Rightarrow> py_round_admits regularity 3 r))"

section \<open>Parcel resolution (\<^verbatim>\<open>pipeline/runner.py\<close>)\<close>

text \<open>
  \<^verbatim>\<open>resolve_parcel\<close> builds the same parcel record and the same 15 m by 40 m rectangle
  whatever its argument; Shapely reports area 600 and length 110 for that ring.
\<close>

definition resolve_parcel :: "input_data \<Rightarrow> parcel_data \<times> polygon" where
  "resolve_parcel inp =
     (\<lparr> lot_number = ''2'', plan_number = ''228402'', plan_type = ''DP'',
        rpd = ''Lot 2 DP228402'', parcel_type = ''Lot'', area_sqm = Some 607,
        source_dataset = ''NSW_DCDB_2025Q1'', spatial_accuracy_code = ''SC2'' \<rparr>,
      \<lparr> exterior_coords = [(360400, 6259000), (360415, 6259000), (360415, 6258960),
                           (360400, 6258960), (360400, 6259000)],
        poly_area = 600, poly_length = 110 \<rparr>)"

section \<open>The specification's vocabulary\<close>

text \<open>
  The five-tier threshold table of the specification: rating \<open>r\<close> is the tier of score \<open>s\<close>.
\<close>

definition five_tier :: "int \<Rightarrow> string \<Rightarrow> bool" where
  "five_tier s r =
     ((r = ''None'' \<longleftrightarrow> s = 0)
      \<and> (r = ''Low'' \<longleftrightarrow> 1 \<le> s \<and> s \<le> 3)
      \<and> (r = ''Medium'' \<longleftrightarrow> 4 \<le> s \<and> s \<le> 7)
      \<and> (r = ''High'' \<longleftrightarrow> 8 \<le> s \<and> s \<le> 12)
      \<and> (r = ''Red-Flag'' \<longleftrightarrow> 12 < s))"

text \<open>\<open>clamp(x, lo, hi)\<close>, as the specification writes it.\<close>

definition clamp :: "'a::linorder \<Rightarrow> 'a \<Rightarrow> 'a \<Rightarrow> 'a" where
  "clamp x lo hi = (if x < lo then lo else if hi < x then hi else x)"

text \<open>The two penalties of the risk score, as the specification states them.\<close>

definition slope_penalty :: "real \<Rightarrow> int" where
  "slope_penalty mean_gradient = (if mean_gradient > 25 then 3 else if mean_gradient > 15 then 2 else 0)"

definition regularity_penalty :: "real \<Rightarrow> int" where
  "regularity_penalty regularity = (if regularity < 75 / 100 then 1 else 0)"

text \<open>
  The fast-track checks in their fixed order, each with the entry it contributes: the
  blocking list the specification describes is the entries of the checks that fire.
\<close>

definition cdc_checks ::
    "settings \<Rightarrow> parcel_data \<Rightarrow> geometry_data \<Rightarrow> constraints \<Rightarrow> slope_data \<Rightarrow> (bool \<times> message) list" where
  "cdc_checks st pd gd c sd =
     [(bushfire_prone c, [Lit ''Bushfire (BAL > 40 requires report)'']),
      (flood_prone c, [Lit ''Flood control lot'']),
      (heritage_item c, [Lit ''Heritage Item'']),
      (heritage_conservation_area c, [Lit ''Heritage Conservation Area'']),
      (foreshore_building_line c, [Lit ''Foreshore Building Line'']),
      (riparian_buffer c, [Lit ''Riparian Buffer'']),
      (dict_get (area_sqm pd) 0 < MIN_LOT_AREA_DUAL_OCC_SQM st,
         [Lit ''Insufficient lot area ('', Fmt_0f (dict_get (area_sqm pd) 0), Lit '' sqm)'']),
      (dict_get (frontage_m gd) 0 < MIN_FRONTAGE_DUAL_OCC_M st,
         [Lit ''Insufficient frontage ('', Fmt_1f (dict_get (frontage_m gd) 0), Lit '' m)'']),
      (dict_get (mean_gradient_percent sd) 0 > CDC_MAX_SLOPE_PERCENT st,
         [Lit ''Slope too steep for CDC ('', Fmt_1f (dict_get (mean_gradient_percent sd) 0),
          Lit ''%)''])]"

text \<open>
  Deduplication that keeps the first occurrence of each element, in order of first
  occurrence, stated without an accumulator.
\<close>

fun first_seen :: "'a list \<Rightarrow> 'a list" where
  "first_seen [] = []"
| "first_seen (x # xs) = x # first_seen (filter (\<lambda>y. y \<noteq> x) xs)"

section \<open>Concrete inputs\<close>

text \<open>
  The mock parcel of the pipeline: what \<^verbatim>\<open>compute_geometry\<close> and
  \<^verbatim>\<open>compute_slope_metrics\<close> report for the 15 m by 40 m rectangle, and the envelope
  \<^verbatim>\<open>evaluate_lep_controls\<close> derives for it (FSR 0.6 on 607 sqm).
\<close>

definition mock_input :: input_data where
  "mock_input = \<lparr> query_type = ''address'', raw_input = ''1 Nield Avenue'',
                   resolved_address = Some ''1 Nield Avenue'',
                   resolved_lot_plan = ''Lot 2 DP228402'',
                   resolved_coordinates = (- 337902 / 10000, 1512618 / 10000) \<rparr>"

definition mock_geometry :: geometry_data where
  "mock_geometry = \<lparr> frontage_m = Some 15, regularity_index = Some (891 / 1000),
                      is_corner_lot = False \<rparr>"

definition mock_slope :: slope_data where
  "mock_slope = \<lparr> mean_gradient_percent = Some (65 / 10), falls_to_street = Some False \<rparr>"

definition mock_envelope :: envelope_data where
  "mock_envelope = \<lparr> max_gfa_sqm = Some (3642 / 10), fsr_control = Some (6 / 10),
                      max_height_m = Some (85 / 10) \<rparr>"

definition mock_constraints :: constraints where
  "mock_constraints = evaluate_constraints (snd (resolve_parcel mock_input)) mock_geometry"

text \<open>Variations of the mock constraint set and of the slope, used as test inputs.\<close>

definition flood_constraints :: constraints where
  "flood_constraints = mock_constraints\<lparr>flood_prone := True\<rparr>"

definition overlay_constraints :: "nat \<Rightarrow> constraints" where
  "overlay_constraints n = mock_constraints\<lparr>other_overlays := Some (replicate n ''Overlay'')\<rparr>"

definition heritage_constraints :: constraints where
  "heritage_constraints = mock_constraints\<lparr>heritage_item := True\<rparr>"

definition steep_slope :: slope_data where
  "steep_slope = \<lparr> mean_gradient_percent = Some 30, falls_to_street = Some False \<rparr>"

definition irregular_geometry :: geometry_data where
  "irregular_geometry = \<lparr> frontage_m = Some 15, regularity_index = Some (7 / 10),
                           is_corner_lot = False \<rparr>"

definition flood_severity_record :: constraint_severity where
  "flood_severity_record =
     \<lparr> bushfire_severity = 0, flood_severity = 3, heritage_severity = 0, geotech_severity = 0,
       biodiversity_severity = 0, total_score = Some 9, rating = ''High'' \<rparr>"

definition hazard_constraints :: constraints where
  "hazard_constraints =
     mock_constraints\<lparr> bushfire_prone := True,
                        bushfire_category := Some (PyStr ''Vegetation Category 1''),
                        flood_prone := True, heritage_item := True,
                        geotech_landslip_risk := Some ''Very High'' \<rparr>"

definition corner_geometry :: geometry_data where
  "corner_geometry = \<lparr> frontage_m = Some 15, regularity_index = Some (7 / 10),
                        is_corner_lot = True \<rparr>"

text \<open>Envelopes and a smaller parcel, for the yield estimator.\<close>

definition dense_envelope :: envelope_data where
  "dense_envelope = \<lparr> max_gfa_sqm = Some (4856 / 10), fsr_control = Some (8 / 10),
                       max_height_m = Some (85 / 10) \<rparr>"

definition small_parcel :: parcel_data where
  "small_parcel = (fst (resolve_parcel mock_input))\<lparr>area_sqm := Some 500\<rparr>"

definition small_envelope :: envelope_data where
  "small_envelope = \<lparr> max_gfa_sqm = Some 400, fsr_control = Some (8 / 10),
                       max_height_m = Some (85 / 10) \<rparr>"

text \<open>
  Two more polygons: a 16 m by 1 m strip, and a ring whose vertices all coincide (area 0,
  perimeter 0).
\<close>

definition thin_rectangle :: polygon where
  "thin_rectangle = \<lparr> exterior_coords = [(0, 0), (16, 0), (16, 1), (0, 1), (0, 0)],
                       poly_area = 16, poly_length = 34 \<rparr>"

definition degenerate_polygon :: polygon where
  "degenerate_polygon = \<lparr> exterior_coords = [(0, 0), (0, 0), (0, 0), (0, 0)],
                           poly_area = 0, poly_length = 0 \<rparr>"

section \<open>Rating tables\<close>

lemma mock_constraints_eq:
  "mock_constraints =
     \<lparr> bushfire_prone = False, bushfire_category = Some PyNone,
       flood_prone = False, flood_notes = Some PyNone,
       acid_sulfate_soil_class = Some ''None'',
       heritage_item = False, heritage_conservation_area = False,
       foreshore_building_line = False, riparian_buffer = False,
       biodiversity = False, geotech_landslip_risk = Some ''Low'',
       other_overlays = Some [] \<rparr>"
  by (simp add: mock_constraints_def evaluate_constraints_def)

lemma rating_tables_equal: "constraint_rating s = risk_rating s"
  by (simp add: constraint_rating_def risk_rating_def)

lemma risk_rating_tier: "0 \<le> s \<Longrightarrow> five_tier s (risk_rating s)"
  by (auto simp: five_tier_def risk_rating_def)

lemma risk_total_score_eq:
  "risk_total_score sev sd gd
     = dict_get (total_score sev) 0
       + slope_penalty (dict_get (mean_gradient_percent sd) 0)
       + regularity_penalty (dict_get (regularity_index gd) 1)"
  by (simp add: risk_total_score_def slope_penalty_def regularity_penalty_def Let_def)

text \<open>What a successful call of \<^verbatim>\<open>compute_constraint_severity\<close> stores in its record.\<close>

lemma severity_total_and_rating:
  assumes "compute_constraint_severity st c = Inr sev"
  shows "total_score sev
           = Some (BUSHFIRE_WEIGHT st * bushfire_severity sev
                 + FLOOD_WEIGHT st * flood_severity sev
                 + HERITAGE_WEIGHT st * heritage_severity sev
                 + GEOTECH_WEIGHT st * geotech_severity sev
                 + BIODIVERSITY_WEIGHT st * biodiversity_severity sev
                 + MISC_WEIGHT st * int (length (dict_get (other_overlays c) [])))"
    and "rating sev
           = constraint_rating (BUSHFIRE_WEIGHT st * bushfire_severity sev
                 + FLOOD_WEIGHT st * flood_severity sev
                 + HERITAGE_WEIGHT st * heritage_severity sev
                 + GEOTECH_WEIGHT st * geotech_severity sev
                 + BIODIVERSITY_WEIGHT st * biodiversity_severity sev
                 + MISC_WEIGHT st * int (length (dict_get (other_overlays c) [])))"
proof -
  obtain b where b: "bushfire_severity_of c = Inr b"
    using assms by (cases "bushfire_severity_of c") (simp_all add: compute_constraint_severity_def)
  have "sev = \<lparr> bushfire_severity = b,
                flood_severity = (if flood_prone c then 3 else 0),
                heritage_severity = (if heritage_item c then 3
                                     else if heritage_conservation_area c then 2 else 0),
                geotech_severity
                  = dict_get (geotech_table (dict_get (geotech_landslip_risk c) ''Low'')) 0,
                biodiversity_severity = (if biodiversity c then 2 else 0),
                total_score = Some (BUSHFIRE_WEIGHT st * b
                  + FLOOD_WEIGHT st * (if flood_prone c then 3 else 0)
                  + HERITAGE_WEIGHT st * (if heritage_item c then 3
                                          else if heritage_conservation_area c then 2 else 0)
                  + GEOTECH_WEIGHT st
                    * dict_get (geotech_table (dict_get (geotech_landslip_risk c) ''Low'')) 0
                  + BIODIVERSITY_WEIGHT st * (if biodiversity c then 2 else 0)
                  + MISC_WEIGHT st * int (length (dict_get (other_overlays c) []))),
                rating = constraint_rating (BUSHFIRE_WEIGHT st * b
                  + FLOOD_WEIGHT st * (if flood_prone c then 3 else 0)
                  + HERITAGE_WEIGHT st * (if heritage_item c then 3
                                          else if heritage_conservation_area c then 2 else 0)
                  + GEOTECH_WEIGHT st
                    * dict_get (geotech_table (dict_get (geotech_landslip_risk c) ''Low'')) 0
                  + BIODIVERSITY_WEIGHT st * (if biodiversity c then 2 else 0)
                  + MISC_WEIGHT st * int (length (dict_get (other_overlays c) []))) \<rparr>"
    using assms b by (simp only: compute_constraint_severity_def Let_def sum.case sum.inject)
  then show "total_score sev
           = Some (BUSHFIRE_WEIGHT st * bushfire_severity sev
                 + FLOOD_WEIGHT st * flood_severity sev
                 + HERITAGE_WEIGHT st * heritage_severity sev
                 + GEOTECH_WEIGHT st * geotech_severity sev
                 + BIODIVERSITY_WEIGHT st * biodiversity_severity sev
                 + MISC_WEIGHT st * int (length (dict_get (other_overlays c) [])))"
    and "rating sev
           = constraint_rating (BUSHFIRE_WEIGHT st * bushfire_severity sev
                 + FLOOD_WEIGHT st * flood_severity sev
                 + HERITAGE_WEIGHT st * heritage_severity sev
                 + GEOTECH_WEIGHT st * geotech_severity sev
                 + BIODIVERSITY_WEIGHT st * biodiversity_severity sev
                 + MISC_WEIGHT st * int (length (dict_get (other_overlays c) [])))"
    by simp_all
qed

lemma severity_of_flood:
  "compute_constraint_severity get_settings flood_constraints = Inr flood_severity_record"
  by (simp add: compute_constraint_severity_def flood_constraints_def mock_constraints_eq
      get_settings_def bushfire_severity_of_def geotech_table_def dict_get_def
      constraint_rating_def flood_severity_record_def Let_def)

text \<open>Every score from 0 upwards is reached, by that many overlays on the mock parcel.\<close>

lemma severity_of_overlays:
  "compute_constraint_severity get_settings (overlay_constraints n)
     = Inr \<lparr> bushfire_severity = 0, flood_severity = 0, heritage_severity = 0,
             geotech_severity = 0, biodiversity_severity = 0, total_score = Some (int n),
             rating = constraint_rating (int n) \<rparr>"
  by (simp add: compute_constraint_severity_def overlay_constraints_def mock_constraints_eq
      get_settings_def bushfire_severity_of_def geotech_table_def dict_get_def Let_def)

text \<open>
  C1. The score-to-rating mapping is the same five-tier table in both scorers. A successful
  call of \<^verbatim>\<open>compute_constraint_severity\<close> stores the weighted sum of its severities as the
  total score and, when that score is not negative, its tier as the rating:
  "None" iff the score is 0, "Low" iff 1 to 3, "Medium" iff 4 to 7, "High" iff 8 to 12,
  "Red-Flag" iff above 12. \<^verbatim>\<open>compute_risk_rating\<close> returns the tier of its own score, the
  total score it is given plus the slope and regularity penalties. Whenever the two scores
  are equal, the two ratings are equal. Every score from 0 upwards is the total score of
  some constraint set under the default weights.
\<close>

theorem rating_tables_agree:
  "(compute_constraint_severity st c = Inr sev \<longrightarrow>
      (\<exists>t. total_score sev = Some t
         \<and> t = BUSHFIRE_WEIGHT st * bushfire_severity sev
               + FLOOD_WEIGHT st * flood_severity sev
               + HERITAGE_WEIGHT st * heritage_severity sev
               + GEOTECH_WEIGHT st * geotech_severity sev
               + BIODIVERSITY_WEIGHT st * biodiversity_severity sev
               + MISC_WEIGHT st * int (length (dict_get (other_overlays c) []))
         \<and> (0 \<le> t \<longrightarrow> five_tier t (rating sev))
         \<and> (dict_get (total_score sev') 0
              + slope_penalty (dict_get (mean_gradient_percent sd) 0)
              + regularity_penalty (dict_get (regularity_index gd) 1) = t
            \<longrightarrow> compute_risk_rating c' sev' sd gd = rating sev)))
   \<and> (0 \<le> dict_get (total_score sev') 0
              + slope_penalty (dict_get (mean_gradient_percent sd) 0)
              + regularity_penalty (dict_get (regularity_index gd) 1)
      \<longrightarrow> five_tier (dict_get (total_score sev') 0
              + slope_penalty (dict_get (mean_gradient_percent sd) 0)
              + regularity_penalty (dict_get (regularity_index gd) 1))
            (compute_risk_rating c' sev' sd gd))
   \<and> (0 \<le> s \<longrightarrow>
        (\<exists>c0 sev0. compute_constraint_severity get_settings c0 = Inr sev0
                   \<and> total_score sev0 = Some s))"
proof -
  let ?T = "dict_get (total_score sev') 0
              + slope_penalty (dict_get (mean_gradient_percent sd) 0)
              + regularity_penalty (dict_get (regularity_index gd) 1)"
  have risk: "compute_risk_rating c' sev' sd gd = risk_rating ?T"
    by (simp only: compute_risk_rating_def risk_total_score_eq)
  have scorer: "\<exists>t. total_score sev = Some t
         \<and> t = BUSHFIRE_WEIGHT st * bushfire_severity sev
               + FLOOD_WEIGHT st * flood_severity sev
               + HERITAGE_WEIGHT st * heritage_severity sev
               + GEOTECH_WEIGHT st * geotech_severity sev
               + BIODIVERSITY_WEIGHT st * biodiversity_severity sev
               + MISC_WEIGHT st * int (length (dict_get (other_overlays c) []))
         \<and> (0 \<le> t \<longrightarrow> five_tier t (rating sev))
         \<and> (?T = t \<longrightarrow> compute_risk_rating c' sev' sd gd = rating sev)"
    if h: "compute_constraint_severity st c = Inr sev"
  proof -
    let ?t = "BUSHFIRE_WEIGHT st * bushfire_severity sev
               + FLOOD_WEIGHT st * flood_severity sev
               + HERITAGE_WEIGHT st * heritage_severity sev
               + GEOTECH_WEIGHT st * geotech_severity sev
               + BIODIVERSITY_WEIGHT st * biodiversity_severity sev
               + MISC_WEIGHT st * int (length (dict_get (other_overlays c) []))"
    have r: "rating sev = risk_rating ?t"
      using severity_total_and_rating(2) [OF h] by (simp only: rating_tables_equal)
    have tier: "0 \<le> ?t \<longrightarrow> five_tier ?t (rating sev)"
      using risk_rating_tier [of ?t] r by simp
    have agree: "?T = ?t \<longrightarrow> compute_risk_rating c' sev' sd gd = rating sev"
      using risk r by simp
    from severity_total_and_rating(1) [OF h] tier agree show ?thesis by blast
  qed
  have tierT: "0 \<le> ?T \<longrightarrow> five_tier ?T (compute_risk_rating c' sev' sd gd)"
    using risk_rating_tier [of ?T] risk by simp
  have reach: "\<exists>c0 sev0. compute_constraint_severity get_settings c0 = Inr sev0
                   \<and> total_score sev0 = Some s" if "0 \<le> s"
  proof -
    from that have "int (nat s) = s" by simp
    with severity_of_overlays [of "nat s"] show ?thesis
      by (metis constraint_severity.select_convs(6))
  qed
  from scorer tierT reach show ?thesis by blast
qed

text \<open>
  Witness for C1: the mock constraint set with the flood flag on scores 3 * 3 = 9, rated
  "High"; the risk rating of that record on the mock parcel, with no penalty, is "High"
  as well.
\<close>

theorem rating_tables_agree_witness:
  "compute_constraint_severity get_settings flood_constraints = Inr flood_severity_record
   \<and> total_score flood_severity_record = Some 9
   \<and> (0::int) \<le> 9
   \<and> five_tier 9 (rating flood_severity_record)
   \<and> rating flood_severity_record = ''High''
   \<and> dict_get (total_score flood_severity_record) 0
       + slope_penalty (dict_get (mean_gradient_percent mock_slope) 0)
       + regularity_penalty (dict_get (regularity_index mock_geometry) 1) = 9
   \<and> five_tier 9 (compute_risk_rating flood_constraints flood_severity_record mock_slope
         mock_geometry)
   \<and> compute_risk_rating flood_constraints flood_severity_record mock_slope mock_geometry
       = ''High''"
proof -
  have t: "total_score flood_severity_record = Some 9"
    and r: "rating flood_severity_record = ''High''"
    by (simp_all add: flood_severity_record_def)
  have T: "dict_get (total_score flood_severity_record) 0
       + slope_penalty (dict_get (mean_gradient_percent mock_slope) 0)
       + regularity_penalty (dict_get (regularity_index mock_geometry) 1) = 9"
    by (simp add: flood_severity_record_def mock_slope_def mock_geometry_def dict_get_def
        slope_penalty_def regularity_penalty_def)
  from rating_tables_agree [where st = get_settings and c = flood_constraints
      and sev = flood_severity_record and sev' = flood_severity_record and sd = mock_slope
      and gd = mock_geometry and c' = flood_constraints and s = 9]
    severity_of_flood t r T
  show ?thesis by simp
qed

section \<open>Risk score\<close>

text \<open>
  C4. The overall risk score is the constraint total score plus the slope penalty (3 above
  a mean gradient of 25, else 2 above 15, else 0) plus the regularity penalty (1 below a
  regularity index of 0.75, else 0), and \<^verbatim>\<open>compute_risk_rating\<close> returns this total
  mapped through the five-tier table of the constraint severity.
\<close>

theorem risk_score_formula:
  "risk_total_score sev sd gd
     = dict_get (total_score sev) 0
       + slope_penalty (dict_get (mean_gradient_percent sd) 0)
       + regularity_penalty (dict_get (regularity_index gd) 1)
   \<and> compute_risk_rating c sev sd gd
       = constraint_rating (dict_get (total_score sev) 0
           + slope_penalty (dict_get (mean_gradient_percent sd) 0)
           + regularity_penalty (dict_get (regularity_index gd) 1))"
proof -
  have "risk_total_score sev sd gd
     = dict_get (total_score sev) 0
       + slope_penalty (dict_get (mean_gradient_percent sd) 0)
       + regularity_penalty (dict_get (regularity_index gd) 1)"
    by (simp add: risk_total_score_def slope_penalty_def regularity_penalty_def Let_def)
  then show ?thesis
    by (simp add: compute_risk_rating_def rating_tables_equal)
qed

text \<open>
  Witness for C4: a score of 9 with a mean gradient of 30 and a regularity index of 0.7
  totals 9 + 3 + 1 = 13, rated "Red-Flag".
\<close>

theorem risk_score_formula_witness:
  "risk_total_score flood_severity_record steep_slope irregular_geometry = 13
   \<and> compute_risk_rating flood_constraints flood_severity_record steep_slope irregular_geometry
       = ''Red-Flag''"
  using risk_score_formula [of flood_severity_record steep_slope irregular_geometry
      flood_constraints]
  by (simp add: flood_severity_record_def steep_slope_def irregular_geometry_def dict_get_def
      slope_penalty_def regularity_penalty_def constraint_rating_def)

section \<open>Fast-track pathway\<close>

lemma append_if_singleton: "(if b then xs @ [x] else xs) = xs @ (if b then [x] else [])"
  by simp

lemma fired_Cons:
  "map snd (filter fst ((b, m) # rest)) = (if b then [m] else []) @ map snd (filter fst rest)"
  by simp

lemma fired_Nil: "map snd (filter fst []) = []"
  by simp

lemma cdc_blocking_eq:
  "blocking_constraints (evaluate_cdc_potential st pd gd c sd)
     = map snd (filter fst (cdc_checks st pd gd c sd))"
  apply (simp only: evaluate_cdc_potential_def cdc_checks_def append_if_singleton)
  apply (simp only: Let_def cdc_potential.select_convs fired_Cons fired_Nil
      append_Nil append_Nil2 append_assoc)
  done

lemma cdc_compliant_eq:
  "is_potentially_cdc_compliant (evaluate_cdc_potential st pd gd c sd)
     = (blocking_constraints (evaluate_cdc_potential st pd gd c sd) = [])"
  apply (simp only: evaluate_cdc_potential_def append_if_singleton)
  apply (simp only: Let_def cdc_potential.select_convs length_0_conv)
  done

lemma mock_parcel_area: "area_sqm (fst (resolve_parcel inp)) = Some 607"
  by (simp add: resolve_parcel_def)

text \<open>
  C2. For every input of \<^verbatim>\<open>evaluate_cdc_potential\<close>, the parcel is potentially
  compliant iff the blocking list is empty, and the blocking list is exactly the entries of
  the checks that fire, in the fixed order: bushfire prone, flood prone, heritage item,
  heritage conservation area, foreshore building line, riparian buffer, area below the
  minimum, frontage below the minimum, mean gradient above the configured ceiling.
\<close>

theorem cdc_blocking_order:
  "(is_potentially_cdc_compliant (evaluate_cdc_potential st pd gd c sd)
      \<longleftrightarrow> blocking_constraints (evaluate_cdc_potential st pd gd c sd) = [])
   \<and> blocking_constraints (evaluate_cdc_potential st pd gd c sd)
       = map snd (filter fst (cdc_checks st pd gd c sd))"
  using cdc_blocking_eq cdc_compliant_eq by blast

text \<open>
  Witness for C2: the mock parcel with a heritage item on a 30 percent slope is blocked by
  exactly those two entries, heritage first; the mock parcel itself is not blocked.
\<close>

theorem cdc_blocking_order_witness:
  "blocking_constraints (evaluate_cdc_potential get_settings (fst (resolve_parcel mock_input))
       mock_geometry heritage_constraints steep_slope)
     = [[Lit ''Heritage Item''], [Lit ''Slope too steep for CDC ('', Fmt_1f 30, Lit ''%)'']]
   \<and> \<not> is_potentially_cdc_compliant (evaluate_cdc_potential get_settings
         (fst (resolve_parcel mock_input)) mock_geometry heritage_constraints steep_slope)
   \<and> blocking_constraints (evaluate_cdc_potential get_settings (fst (resolve_parcel mock_input))
       mock_geometry mock_constraints mock_slope) = []
   \<and> is_potentially_cdc_compliant (evaluate_cdc_potential get_settings
         (fst (resolve_parcel mock_input)) mock_geometry mock_constraints mock_slope)"
  using cdc_blocking_order [of get_settings "fst (resolve_parcel mock_input)" mock_geometry
      heritage_constraints steep_slope]
    cdc_blocking_order [of get_settings "fst (resolve_parcel mock_input)" mock_geometry
      mock_constraints mock_slope]
  by (simp add: cdc_checks_def mock_parcel_area mock_geometry_def heritage_constraints_def
      mock_constraints_eq steep_slope_def mock_slope_def get_settings_def dict_get_def)

section \<open>Full-application pathway\<close>

lemma set_first_seen: "set (first_seen xs) = set xs"
  by (induction xs rule: first_seen.induct) auto

lemma distinct_first_seen: "distinct (first_seen xs)"
  by (induction xs rule: first_seen.induct) (auto simp: set_first_seen)

lemma first_seen_distinct_id: "distinct xs \<Longrightarrow> first_seen xs = xs"
proof (induction xs)
  case Nil
  then show ?case by simp
next
  case (Cons x xs)
  then have "filter (\<lambda>y. y \<noteq> x) xs = xs"
    by (auto intro: filter_True)
  with Cons show ?case by simp
qed

text \<open>The accumulator of \<^verbatim>\<open>dict.fromkeys\<close> holds the keys in order of first occurrence.\<close>

lemma fromkeys_acc_first_seen:
  "distinct ks \<Longrightarrow> fromkeys_acc ks xs = ks @ first_seen (filter (\<lambda>y. y \<notin> set ks) xs)"
proof (induction xs arbitrary: ks)
  case Nil
  then show ?case by simp
next
  case (Cons x xs)
  show ?case
  proof (cases "x \<in> set ks")
    case True
    with Cons show ?thesis by simp
  next
    case False
    have d: "distinct (ks @ [x])" using Cons.prems False by simp
    have f: "filter (\<lambda>y. y \<notin> set (ks @ [x])) xs
               = filter (\<lambda>y. y \<noteq> x) (filter (\<lambda>y. y \<notin> set ks) xs)"
      by (auto intro: filter_cong)
    from Cons.IH [OF d] False f show ?thesis by simp
  qed
qed

lemma dict_fromkeys_first_seen: "dict_fromkeys xs = first_seen xs"
  by (simp add: dict_fromkeys_def fromkeys_acc_first_seen)

lemma da_key_issues_eq:
  "key_issues (evaluate_da_potential pd gd c sd studies)
     = take 5 (first_seen (da_issue_list gd c sd))"
  by (simp only: evaluate_da_potential_def Let_def da_potential.select_convs
      dict_fromkeys_first_seen)

lemma da_supportable_eq:
  "is_likely_supportable (evaluate_da_potential pd gd c sd studies)
     = (\<not> (heritage_item c \<or> dict_get (geotech_landslip_risk c) ''Low'' = ''Very High''))"
  by (simp add: evaluate_da_potential_def Let_def)

lemma da_red_flags_eq:
  "red_flags (evaluate_da_potential pd gd c sd studies)
     = (if heritage_item c then [''Heritage Item''] else [])
       @ (if dict_get (geotech_landslip_risk c) ''Low'' = ''Very High''
          then [''Very High Landslip Risk''] else [])"
  by (simp add: evaluate_da_potential_def Let_def)

lemma hazard_issue_list:
  "da_issue_list corner_geometry hazard_constraints steep_slope
     = [''Bushfire vegetation setback'', ''Flood planning and stormwater management'',
        ''Heritage significance - strict controls apply'', ''Slope and stormwater'',
        ''Geotechnical stability'', ''Irregular lot shape - design challenges'',
        ''Streetscape bulk & scale'', ''Corner lot - secondary street setbacks'']"
  by (simp add: da_issue_list_def append_if_singleton hazard_constraints_def
      mock_constraints_eq corner_geometry_def steep_slope_def dict_get_def)

text \<open>
  C5. For every input of \<^verbatim>\<open>evaluate_da_potential\<close>, the application is not likely
  supportable exactly when a heritage item is present or the landslip risk is "Very High";
  each of the two conditions puts its entry on the red-flag list; the exposed key issues
  are the accumulated issues with duplicates removed in order of first occurrence, cut to
  the first five, so they are distinct and at most five.
\<close>

theorem da_supportability:
  "(\<not> is_likely_supportable (evaluate_da_potential pd gd c sd studies)
      \<longleftrightarrow> heritage_item c \<or> dict_get (geotech_landslip_risk c) ''Low'' = ''Very High'')
   \<and> (''Heritage Item'' \<in> set (red_flags (evaluate_da_potential pd gd c sd studies))
      \<longleftrightarrow> heritage_item c)
   \<and> (''Very High Landslip Risk'' \<in> set (red_flags (evaluate_da_potential pd gd c sd studies))
      \<longleftrightarrow> dict_get (geotech_landslip_risk c) ''Low'' = ''Very High'')
   \<and> key_issues (evaluate_da_potential pd gd c sd studies)
       = take 5 (first_seen (da_issue_list gd c sd))
   \<and> distinct (key_issues (evaluate_da_potential pd gd c sd studies))
   \<and> length (key_issues (evaluate_da_potential pd gd c sd studies)) \<le> 5"
proof -
  have "distinct (take 5 (first_seen (da_issue_list gd c sd)))"
    by (rule distinct_take) (rule distinct_first_seen)
  then show ?thesis
    by (simp add: da_key_issues_eq da_supportable_eq da_red_flags_eq)
qed

text \<open>
  Witness for C5: with every hazard present on a steep, irregular corner lot, eight issues
  accumulate and the first five are exposed; the application is not supportable and both
  red flags are raised.
\<close>

theorem da_supportability_witness:
  "key_issues (evaluate_da_potential (fst (resolve_parcel mock_input)) corner_geometry
       hazard_constraints steep_slope [])
     = [''Bushfire vegetation setback'', ''Flood planning and stormwater management'',
        ''Heritage significance - strict controls apply'', ''Slope and stormwater'',
        ''Geotechnical stability'']
   \<and> \<not> is_likely_supportable (evaluate_da_potential (fst (resolve_parcel mock_input))
         corner_geometry hazard_constraints steep_slope [])
   \<and> ''Heritage Item'' \<in> set (red_flags (evaluate_da_potential
         (fst (resolve_parcel mock_input)) corner_geometry hazard_constraints steep_slope []))
   \<and> ''Very High Landslip Risk'' \<in> set (red_flags (evaluate_da_potential
         (fst (resolve_parcel mock_input)) corner_geometry hazard_constraints steep_slope []))"
proof -
  have h: "heritage_item hazard_constraints"
    by (simp add: hazard_constraints_def)
  have g: "dict_get (geotech_landslip_risk hazard_constraints) ''Low'' = ''Very High''"
    by (simp add: hazard_constraints_def dict_get_def)
  have d: "first_seen (da_issue_list corner_geometry hazard_constraints steep_slope)
             = da_issue_list corner_geometry hazard_constraints steep_slope"
    by (rule first_seen_distinct_id) (simp add: hazard_issue_list)
  from da_supportability [of "fst (resolve_parcel mock_input)" corner_geometry
      hazard_constraints steep_slope "[]"] h g
  show ?thesis by (simp add: d hazard_issue_list)
qed

text \<open>
  C10. For every input of \<^verbatim>\<open>evaluate_da_potential\<close>, the red-flag list is empty if and
  only if the application is likely supportable.
\<close>

theorem da_red_flags_iff_unsupportable:
  "red_flags (evaluate_da_potential pd gd c sd studies) = []
     \<longleftrightarrow> is_likely_supportable (evaluate_da_potential pd gd c sd studies)"
  by (simp add: da_supportable_eq da_red_flags_eq)

text \<open>
  Witness for C10: the mock parcel raises no red flag and is supportable; with a heritage
  item it raises one and is not.
\<close>

theorem da_red_flags_iff_unsupportable_witness:
  "red_flags (evaluate_da_potential (fst (resolve_parcel mock_input)) mock_geometry
       mock_constraints mock_slope []) = []
   \<and> is_likely_supportable (evaluate_da_potential (fst (resolve_parcel mock_input))
         mock_geometry mock_constraints mock_slope [])
   \<and> red_flags (evaluate_da_potential (fst (resolve_parcel mock_input)) mock_geometry
       heritage_constraints mock_slope []) = [''Heritage Item'']
   \<and> \<not> is_likely_supportable (evaluate_da_potential (fst (resolve_parcel mock_input))
         mock_geometry heritage_constraints mock_slope [])"
proof -
  have r1: "red_flags (evaluate_da_potential (fst (resolve_parcel mock_input)) mock_geometry
       mock_constraints mock_slope []) = []"
    by (simp add: da_red_flags_eq mock_constraints_eq dict_get_def)
  have r2: "red_flags (evaluate_da_potential (fst (resolve_parcel mock_input)) mock_geometry
       heritage_constraints mock_slope []) = [''Heritage Item'']"
    by (simp add: da_red_flags_eq heritage_constraints_def mock_constraints_eq dict_get_def)
  from da_red_flags_iff_unsupportable [of "fst (resolve_parcel mock_input)" mock_geometry
      mock_constraints mock_slope "[]"]
    da_red_flags_iff_unsupportable [of "fst (resolve_parcel mock_input)" mock_geometry
      heritage_constraints mock_slope "[]"] r1 r2
  show ?thesis by simp
qed

section \<open>Typology gates\<close>

lemma typologies_gates:
  "determine_allowed_typologies st z a gd
     = \<lparr> dual_occupancy = (z \<in> {''R1'', ''R2'', ''R3''} \<and> a \<ge> MIN_LOT_AREA_DUAL_OCC_SQM st
                            \<and> dict_get (frontage_m gd) 0 \<ge> MIN_FRONTAGE_DUAL_OCC_M st),
         terrace_row = (z \<in> {''R1'', ''R3''}),
         manor_house = (z \<in> {''R1'', ''R2''} \<and> a \<ge> 600),
         multi_dwelling = (z \<in> {''R1'', ''R3''}),
         apartments = (z \<in> {''R3'', ''R4''}) \<rparr>"
  by (simp add: determine_allowed_typologies_def Let_def)

text \<open>
  C8. For every zone code outside R1, R2, R3 and R4, \<^verbatim>\<open>determine_allowed_typologies\<close>
  returns all five gates (dual occupancy, terrace row, manor house, multi dwelling,
  apartments) false; it is a total function and raises nothing.
\<close>

theorem unknown_zone_all_infeasible:
  "zone_code \<notin> {''R1'', ''R2'', ''R3'', ''R4''} \<Longrightarrow>
     determine_allowed_typologies st zone_code parcel_area_sqm gd
       = \<lparr> dual_occupancy = False, terrace_row = False, manor_house = False,
           multi_dwelling = False, apartments = False \<rparr>"
  by (simp add: determine_allowed_typologies_def Let_def)

text \<open>Witness for C8: the business zone B2 on the mock parcel.\<close>

theorem unknown_zone_all_infeasible_witness:
  "''B2'' \<notin> {''R1'', ''R2'', ''R3'', ''R4''}
   \<and> determine_allowed_typologies get_settings ''B2'' 607 mock_geometry
       = \<lparr> dual_occupancy = False, terrace_row = False, manor_house = False,
           multi_dwelling = False, apartments = False \<rparr>"
proof -
  have h: "''B2'' \<notin> {''R1'', ''R2'', ''R3'', ''R4''}" by simp
  from unknown_zone_all_infeasible [OF h] h show ?thesis by simp
qed

section \<open>Yield\<close>

lemma select_typology_total:
  "AVERAGE_UNIT_SIZE_TOWNHOUSE_SQM st \<noteq> 0 \<Longrightarrow>
     \<exists>n t. select_typology st g dual manor multi terrace = Inr (n, t)"
  by (simp add: select_typology_def Let_def)

lemma clamp_max_min: "lo \<le> hi \<Longrightarrow> max lo (min hi x) = clamp x lo hi"
  by (auto simp: clamp_def)

lemma select_typology_cases:
  assumes "select_typology st g dual manor multi terrace = Inr (n, t)"
  shows "(dual \<longrightarrow> t = ''Dual Occupancy'' \<and> n = 2)
       \<and> (\<not> dual \<and> manor \<longrightarrow> t = ''Manor House'' \<and> n = 3)
       \<and> (\<not> dual \<and> \<not> manor \<and> multi \<longrightarrow> t = ''Multi-Dwelling Housing''
             \<and> n = clamp \<lfloor>g / AVERAGE_UNIT_SIZE_TOWNHOUSE_SQM st\<rfloor> 2 6)
       \<and> (\<not> dual \<and> \<not> manor \<and> \<not> multi \<and> terrace \<longrightarrow> t = ''Terrace/Row Housing''
             \<and> n = clamp \<lfloor>g / AVERAGE_UNIT_SIZE_TOWNHOUSE_SQM st\<rfloor> 3 6)
       \<and> (\<not> dual \<and> \<not> manor \<and> \<not> multi \<and> \<not> terrace \<longrightarrow> t = ''Single Dwelling'' \<and> n = 1)"
  using assms
  by (auto simp: select_typology_def Let_def clamp_max_min [symmetric] split: if_splits)

lemma compute_yield_Inr:
  assumes "compute_yield st pd gd env ty c = Inr y"
  shows "dual_occ_feasible y
           = (dual_occupancy ty \<and> \<not> heritage_item c
              \<and> dict_get (area_sqm pd) 600 \<ge> MIN_LOT_AREA_DUAL_OCC_SQM st
              \<and> dict_get (frontage_m gd) 15 \<ge> MIN_FRONTAGE_DUAL_OCC_M st)"
    and "terrace_row_feasible y
           = (terrace_row ty \<and> dict_get (fsr_control env) (6 / 10) \<ge> MIN_FSR_TERRACE st
              \<and> \<not> heritage_item c)"
    and "manor_house_feasible y
           = (manor_house ty \<and> dict_get (max_height_m env) (85 / 10) \<le> 85 / 10
              \<and> dict_get (area_sqm pd) 600 \<ge> 600 \<and> \<not> heritage_item c)"
    and "multi_dwelling_feasible y
           = (multi_dwelling ty
              \<and> dict_get (fsr_control env) (6 / 10) \<ge> MIN_FSR_MULTI_DWELLING st
              \<and> \<not> heritage_item c)"
    and "select_typology st (dict_get (max_gfa_sqm env) 0) (dual_occ_feasible y)
           (manor_house_feasible y) (multi_dwelling_feasible y) (terrace_row_feasible y)
           = Inr (indicative_dwellings_count y, primary_typology y)"
  using assms
  by (auto simp: compute_yield_def Let_def split: sum.splits prod.splits)

lemma compute_yield_total:
  assumes "AVERAGE_UNIT_SIZE_TOWNHOUSE_SQM st \<noteq> 0"
  shows "\<exists>y. compute_yield st pd gd env ty c = Inr y"
proof -
  let ?sel = "select_typology st (dict_get (max_gfa_sqm env) 0)
      (dual_occupancy ty \<and> \<not> heritage_item c
         \<and> dict_get (area_sqm pd) 600 \<ge> MIN_LOT_AREA_DUAL_OCC_SQM st
         \<and> dict_get (frontage_m gd) 15 \<ge> MIN_FRONTAGE_DUAL_OCC_M st)
      (manor_house ty \<and> dict_get (max_height_m env) (85 / 10) \<le> 85 / 10
         \<and> dict_get (area_sqm pd) 600 \<ge> 600 \<and> \<not> heritage_item c)
      (multi_dwelling ty \<and> dict_get (fsr_control env) (6 / 10) \<ge> MIN_FSR_MULTI_DWELLING st
         \<and> \<not> heritage_item c)
      (terrace_row ty \<and> dict_get (fsr_control env) (6 / 10) \<ge> MIN_FSR_TERRACE st
         \<and> \<not> heritage_item c)"
  from select_typology_total [OF assms] obtain n t where "?sel = Inr (n, t)" by blast
  then show ?thesis
    by (simp add: compute_yield_def Let_def)
qed

lemma r1_typologies:
  "determine_allowed_typologies get_settings ''R1'' 607 mock_geometry
     = \<lparr> dual_occupancy = True, terrace_row = True, manor_house = True,
         multi_dwelling = True, apartments = False \<rparr>"
  by (simp add: typologies_gates get_settings_def mock_geometry_def dict_get_def)

lemma r3_typologies:
  "determine_allowed_typologies get_settings ''R3'' 500 mock_geometry
     = \<lparr> dual_occupancy = False, terrace_row = True, manor_house = False,
         multi_dwelling = True, apartments = True \<rparr>"
  by (simp add: typologies_gates get_settings_def mock_geometry_def dict_get_def)

lemma yield_dense:
  "compute_yield get_settings (fst (resolve_parcel mock_input)) mock_geometry dense_envelope
      (determine_allowed_typologies get_settings ''R1'' 607 mock_geometry) mock_constraints
     = Inr \<lparr> dual_occ_feasible = True, terrace_row_feasible = True,
             manor_house_feasible = True, multi_dwelling_feasible = True,
             indicative_dwellings_count = 2, primary_typology = ''Dual Occupancy'',
             yield_notes = [Lit ''Standard '', Lit ''Dual Occupancy'', Lit '' envelope with '',
                            Fmt_repr (8 / 10), Lit '':1 FSR and '', Fmt_repr (85 / 10),
                            Lit '' m height.''] \<rparr>"
  unfolding r1_typologies
  by (simp add: compute_yield_def dense_envelope_def mock_geometry_def
      resolve_parcel_def mock_constraints_def evaluate_constraints_def get_settings_def dict_get_def
      select_typology_def generate_yield_notes_def Let_def)

lemma yield_small:
  "compute_yield get_settings small_parcel mock_geometry small_envelope
      (determine_allowed_typologies get_settings ''R3'' 500 mock_geometry) mock_constraints
     = Inr \<lparr> dual_occ_feasible = False, terrace_row_feasible = True,
             manor_house_feasible = False, multi_dwelling_feasible = True,
             indicative_dwellings_count = 4, primary_typology = ''Multi-Dwelling Housing'',
             yield_notes = [Lit ''Multi-Dwelling Housing'', Lit '' under LEP controls ('',
                            Fmt_repr (8 / 10), Lit '':1 FSR, '', Fmt_repr (85 / 10),
                            Lit '' m height).''] \<rparr>"
  unfolding r3_typologies
  by (simp add: compute_yield_def small_envelope_def mock_geometry_def
      small_parcel_def mock_constraints_def evaluate_constraints_def get_settings_def dict_get_def
      select_typology_def generate_yield_notes_def Let_def)


lemma yield_heritage:
  "compute_yield get_settings (fst (resolve_parcel mock_input)) mock_geometry mock_envelope
      (determine_allowed_typologies get_settings ''R1'' 607 mock_geometry) heritage_constraints
     = Inr \<lparr> dual_occ_feasible = False, terrace_row_feasible = False,
             manor_house_feasible = False, multi_dwelling_feasible = False,
             indicative_dwellings_count = 1, primary_typology = ''Single Dwelling'',
             yield_notes = [Lit ''Single Dwelling'', Lit '' under LEP controls ('',
                            Fmt_repr (6 / 10), Lit '':1 FSR, '', Fmt_repr (85 / 10),
                            Lit '' m height).'',
                            Lit '' Heritage restrictions significantly limit development potential.''] \<rparr>"
  unfolding r1_typologies
  by (simp add: compute_yield_def mock_envelope_def mock_geometry_def
      resolve_parcel_def heritage_constraints_def mock_constraints_eq get_settings_def
      dict_get_def select_typology_def generate_yield_notes_def Let_def)

lemma yield_mock:
  "compute_yield get_settings (fst (resolve_parcel mock_input)) mock_geometry mock_envelope
      (determine_allowed_typologies get_settings ''R1'' 607 mock_geometry) mock_constraints
     = Inr \<lparr> dual_occ_feasible = True, terrace_row_feasible = False,
             manor_house_feasible = True, multi_dwelling_feasible = False,
             indicative_dwellings_count = 2, primary_typology = ''Dual Occupancy'',
             yield_notes = [Lit ''Standard '', Lit ''Dual Occupancy'', Lit '' envelope with '',
                            Fmt_repr (6 / 10), Lit '':1 FSR and '', Fmt_repr (85 / 10),
                            Lit '' m height.''] \<rparr>"
  unfolding r1_typologies
  by (simp add: compute_yield_def mock_envelope_def mock_geometry_def
      resolve_parcel_def mock_constraints_eq get_settings_def
      dict_get_def select_typology_def generate_yield_notes_def Let_def)

text \<open>
  C3. In \<^verbatim>\<open>compute_yield\<close> the first feasible typology in the order dual occupancy, manor
  house, multi dwelling, terrace row, single dwelling fixes both the primary typology and
  the dwelling count: 2, 3, \<open>clamp (floor (max_gfa / unit_size)) 2 6\<close>,
  \<open>clamp (floor (max_gfa / unit_size)) 3 6\<close> and 1. So a feasible dual occupancy always gives
  "Dual Occupancy", whatever else is feasible. With a non-zero unit size the estimator
  returns a result.
\<close>

theorem yield_priority:
  "(compute_yield st pd gd env ty c = Inr y \<longrightarrow>
      (dual_occ_feasible y \<longrightarrow>
         primary_typology y = ''Dual Occupancy'' \<and> indicative_dwellings_count y = 2)
    \<and> (\<not> dual_occ_feasible y \<and> manor_house_feasible y \<longrightarrow>
         primary_typology y = ''Manor House'' \<and> indicative_dwellings_count y = 3)
    \<and> (\<not> dual_occ_feasible y \<and> \<not> manor_house_feasible y \<and> multi_dwelling_feasible y \<longrightarrow>
         primary_typology y = ''Multi-Dwelling Housing''
         \<and> indicative_dwellings_count y
             = clamp \<lfloor>dict_get (max_gfa_sqm env) 0 / AVERAGE_UNIT_SIZE_TOWNHOUSE_SQM st\<rfloor> 2 6)
    \<and> (\<not> dual_occ_feasible y \<and> \<not> manor_house_feasible y \<and> \<not> multi_dwelling_feasible y
         \<and> terrace_row_feasible y \<longrightarrow>
         primary_typology y = ''Terrace/Row Housing''
         \<and> indicative_dwellings_count y
             = clamp \<lfloor>dict_get (max_gfa_sqm env) 0 / AVERAGE_UNIT_SIZE_TOWNHOUSE_SQM st\<rfloor> 3 6)
    \<and> (\<not> dual_occ_feasible y \<and> \<not> manor_house_feasible y \<and> \<not> multi_dwelling_feasible y
         \<and> \<not> terrace_row_feasible y \<longrightarrow>
         primary_typology y = ''Single Dwelling'' \<and> indicative_dwellings_count y = 1))
   \<and> (AVERAGE_UNIT_SIZE_TOWNHOUSE_SQM st \<noteq> 0 \<longrightarrow>
        (\<exists>y'. compute_yield st pd gd env ty c = Inr y'))"
proof -
  have "\<exists>y'. compute_yield st pd gd env ty c = Inr y'"
    if "AVERAGE_UNIT_SIZE_TOWNHOUSE_SQM st \<noteq> 0"
    using compute_yield_total [OF that] .
  moreover have "(dual_occ_feasible y \<longrightarrow>
         primary_typology y = ''Dual Occupancy'' \<and> indicative_dwellings_count y = 2)
    \<and> (\<not> dual_occ_feasible y \<and> manor_house_feasible y \<longrightarrow>
         primary_typology y = ''Manor House'' \<and> indicative_dwellings_count y = 3)
    \<and> (\<not> dual_occ_feasible y \<and> \<not> manor_house_feasible y \<and> multi_dwelling_feasible y \<longrightarrow>
         primary_typology y = ''Multi-Dwelling Housing''
         \<and> indicative_dwellings_count y
             = clamp \<lfloor>dict_get (max_gfa_sqm env) 0 / AVERAGE_UNIT_SIZE_TOWNHOUSE_SQM st\<rfloor> 2 6)
    \<and> (\<not> dual_occ_feasible y \<and> \<not> manor_house_feasible y \<and> \<not> multi_dwelling_feasible y
         \<and> terrace_row_feasible y \<longrightarrow>
         primary_typology y = ''Terrace/Row Housing''
         \<and> indicative_dwellings_count y
             = clamp \<lfloor>dict_get (max_gfa_sqm env) 0 / AVERAGE_UNIT_SIZE_TOWNHOUSE_SQM st\<rfloor> 3 6)
    \<and> (\<not> dual_occ_feasible y \<and> \<not> manor_house_feasible y \<and> \<not> multi_dwelling_feasible y
         \<and> \<not> terrace_row_feasible y \<longrightarrow>
         primary_typology y = ''Single Dwelling'' \<and> indicative_dwellings_count y = 1)"
    if "compute_yield st pd gd env ty c = Inr y"
    using select_typology_cases [OF compute_yield_Inr(5) [OF that]] .
  ultimately show ?thesis by blast
qed

text \<open>
  Witness for C3: on the mock parcel in zone R1 with FSR 0.8, dual occupancy and multi
  dwelling are both feasible and the result is "Dual Occupancy" with 2 dwellings; a 500 sqm
  parcel in zone R3 with a maximum floor area of 400 gives multi dwelling housing with
  \<open>clamp (floor (400 / 100)) 2 6 = 4\<close> dwellings.
\<close>

theorem yield_priority_witness:
  "AVERAGE_UNIT_SIZE_TOWNHOUSE_SQM get_settings \<noteq> 0
   \<and> map_sum id (\<lambda>y. (dual_occ_feasible y, multi_dwelling_feasible y, primary_typology y,
                       indicative_dwellings_count y))
       (compute_yield get_settings (fst (resolve_parcel mock_input)) mock_geometry
          dense_envelope (determine_allowed_typologies get_settings ''R1'' 607 mock_geometry)
          mock_constraints)
       = Inr (True, True, ''Dual Occupancy'', 2)
   \<and> map_sum id (\<lambda>y. (dual_occ_feasible y, manor_house_feasible y, multi_dwelling_feasible y,
                       primary_typology y, indicative_dwellings_count y))
       (compute_yield get_settings small_parcel mock_geometry small_envelope
          (determine_allowed_typologies get_settings ''R3'' 500 mock_geometry)
          mock_constraints)
       = Inr (False, False, True, ''Multi-Dwelling Housing'', 4)
   \<and> clamp \<lfloor>(400::real) / 100\<rfloor> 2 6 = 4"
proof -
  have a: "AVERAGE_UNIT_SIZE_TOWNHOUSE_SQM get_settings \<noteq> 0"
    by (simp add: get_settings_def)
  have k: "clamp \<lfloor>(400::real) / 100\<rfloor> 2 6 = 4"
    by (simp add: clamp_def)
  from yield_priority [of get_settings small_parcel mock_geometry small_envelope
      "determine_allowed_typologies get_settings ''R3'' 500 mock_geometry" mock_constraints]
    yield_small yield_dense a k
  show ?thesis by simp
qed

text \<open>
  C6, as amended. The manor house gate of \<^verbatim>\<open>determine_allowed_typologies\<close> is zone R1
  or R2 with an area of at least 600. The manor house flag of \<^verbatim>\<open>compute_yield\<close> is that
  gate together with a maximum height of at most 8.5, an area of at least 600 and no
  heritage item: a heritage item excludes all four typologies the estimator evaluates,
  manor house included.
\<close>

theorem manor_house_feasibility:
  "manor_house (determine_allowed_typologies st z a gd) = (z \<in> {''R1'', ''R2''} \<and> a \<ge> 600)
   \<and> (compute_yield st pd gd env ty c = Inr y \<longrightarrow>
        manor_house_feasible y
          = (manor_house ty \<and> dict_get (max_height_m env) (85 / 10) \<le> 85 / 10
             \<and> dict_get (area_sqm pd) 600 \<ge> 600 \<and> \<not> heritage_item c)
      \<and> (heritage_item c \<longrightarrow>
            \<not> dual_occ_feasible y \<and> \<not> terrace_row_feasible y
            \<and> \<not> manor_house_feasible y \<and> \<not> multi_dwelling_feasible y))"
proof -
  have gate: "manor_house (determine_allowed_typologies st z a gd)
                = (z \<in> {''R1'', ''R2''} \<and> a \<ge> 600)"
    by (simp add: typologies_gates)
  have flags: "manor_house_feasible y
          = (manor_house ty \<and> dict_get (max_height_m env) (85 / 10) \<le> 85 / 10
             \<and> dict_get (area_sqm pd) 600 \<ge> 600 \<and> \<not> heritage_item c)
      \<and> (heritage_item c \<longrightarrow>
            \<not> dual_occ_feasible y \<and> \<not> terrace_row_feasible y
            \<and> \<not> manor_house_feasible y \<and> \<not> multi_dwelling_feasible y)"
    if h: "compute_yield st pd gd env ty c = Inr y"
    using compute_yield_Inr(1-4) [OF h] by blast
  from gate flags show ?thesis by blast
qed

text \<open>
  Witness for C6 as amended: the mock parcel in zone R1 with a heritage item passes the
  manor house gate, and none of the four typologies is feasible.
\<close>

theorem manor_house_feasibility_witness:
  "manor_house (determine_allowed_typologies get_settings ''R1'' 607 mock_geometry)
   \<and> heritage_item heritage_constraints
   \<and> map_sum id (\<lambda>y. (dual_occ_feasible y, terrace_row_feasible y, manor_house_feasible y,
                       multi_dwelling_feasible y))
       (compute_yield get_settings (fst (resolve_parcel mock_input)) mock_geometry
          mock_envelope (determine_allowed_typologies get_settings ''R1'' 607 mock_geometry)
          heritage_constraints)
       = Inr (False, False, False, False)"
proof -
  have h: "heritage_item heritage_constraints"
    by (simp add: heritage_constraints_def)
  from manor_house_feasibility [of get_settings "''R1''" 607 mock_geometry
      "fst (resolve_parcel mock_input)" mock_envelope
      "determine_allowed_typologies get_settings ''R1'' 607 mock_geometry"
      heritage_constraints] yield_heritage h
  show ?thesis by simp
qed

text \<open>
  Counterexample for C6 as stated: on the mock parcel in zone R1 the manor house gate
  holds; the manor house flag is true without a heritage item and false with one.
\<close>

theorem manor_house_heritage_counterexample:
  "manor_house (determine_allowed_typologies get_settings ''R1'' 607 mock_geometry)
   \<and> map_sum id manor_house_feasible
       (compute_yield get_settings (fst (resolve_parcel mock_input)) mock_geometry
          mock_envelope (determine_allowed_typologies get_settings ''R1'' 607 mock_geometry)
          mock_constraints) = Inr True
   \<and> map_sum id manor_house_feasible
       (compute_yield get_settings (fst (resolve_parcel mock_input)) mock_geometry
          mock_envelope (determine_allowed_typologies get_settings ''R1'' 607 mock_geometry)
          heritage_constraints) = Inr False"
  by (simp add: yield_mock yield_heritage) (simp add: r1_typologies)

section \<open>Regularity index\<close>

text \<open>Rounding to the nearest multiple is always among the admitted results.\<close>

lemma admits_nearest: "py_round_admits x n (of_int \<lfloor>x * 10 ^ n + 1 / 2\<rfloor> / 10 ^ n)"
proof -
  let ?k = "\<lfloor>x * 10 ^ n + 1 / 2\<rfloor>"
  have e: "of_int ?k / 10 ^ n * 10 ^ n = (of_int ?k :: real)" by simp
  have "of_int ?k \<le> x * 10 ^ n + 1 / 2" "x * 10 ^ n + 1 / 2 < of_int ?k + 1"
    by linarith+
  then have "\<bar>of_int ?k - x * 10 ^ n\<bar> \<le> 1 / 2 + 1 / 1000"
    unfolding abs_le_iff by linarith
  then show ?thesis
    by (simp only: py_round_admits_def Let_def e floor_of_int)
qed

lemma admits_int:
  assumes "py_round_admits x n r"
  obtains k :: int where "r * 10 ^ n = of_int k" "\<bar>of_int k - x * 10 ^ n\<bar> \<le> 1 / 2 + 1 / 1000"
proof
  have "of_int \<lfloor>r * 10 ^ n\<rfloor> = r * 10 ^ n"
    using assms unfolding py_round_admits_def Let_def by (rule conjunct1)
  then show "r * 10 ^ n = of_int \<lfloor>r * 10 ^ n\<rfloor>" by (rule sym)
  show "\<bar>of_int \<lfloor>r * 10 ^ n\<rfloor> - x * 10 ^ n\<bar> \<le> 1 / 2 + 1 / 1000"
    using assms unfolding py_round_admits_def Let_def by (rule conjunct2)
qed

lemma admits_unit:
  assumes a: "py_round_admits x 3 r" and x: "0 \<le> x" "x \<le> 1"
  shows "0 \<le> r \<and> r \<le> 1 \<and> (\<exists>k::int. r = of_int k / 1000) \<and> \<bar>r - x\<bar> \<le> 501 / 1000000"
proof -
  from a obtain k :: int where k: "r * 10 ^ 3 = of_int k"
    and d: "\<bar>of_int k - x * 10 ^ 3\<bar> \<le> 1 / 2 + 1 / 1000" by (rule admits_int)
  from k have r: "r = of_int k / 1000" by simp
  from d have d': "of_int k - x * 1000 \<le> 501 / 1000" "x * 1000 - of_int k \<le> 501 / 1000"
    unfolding abs_le_iff by simp_all
  from d' x have "(-1::real) < of_int k" "of_int k < (1001::real)" by linarith+
  then have "-1 < k" "k < 1001" by linarith+
  then have "0 \<le> k" "k \<le> 1000" by simp_all
  then have b: "0 \<le> r" "r \<le> 1" by (simp_all add: r)
  from d' have "\<bar>r - x\<bar> \<le> 501 / 1000000"
    unfolding abs_le_iff r by simp
  with b r show ?thesis by blast
qed

lemma clamp_unit: "clamp x 0 1 = max 0 (min 1 (x::real))"
  by (auto simp: clamp_def)

lemma clamp_unit_bounds: "0 \<le> clamp (x::real) 0 1 \<and> clamp x 0 1 \<le> 1"
  by (auto simp: clamp_def)

lemma regularity_nonzero:
  assumes "poly_length p \<noteq> 0" "0 \<le> poly_area p"
  shows "compute_regularity_index p res
           = (\<exists>r. res = Inr r
                \<and> py_round_admits (clamp (4 * sqrt (poly_area p) / poly_length p) 0 1) 3 r)"
  using assms
  by (cases res) (simp_all add: compute_regularity_index_def Let_def clamp_unit)

lemma sqrt_16: "sqrt 16 = 4"
proof -
  have "sqrt 16 = sqrt (4\<^sup>2)" by simp
  also have "\<dots> = 4" by (simp del: power2_eq_square)
  finally show ?thesis .
qed

lemma thin_clamp:
  "clamp (4 * sqrt (poly_area thin_rectangle) / poly_length thin_rectangle) 0 1 = 8 / 17"
  by (simp add: thin_rectangle_def sqrt_16 clamp_def)

lemma thin_lengths: "poly_length thin_rectangle \<noteq> 0" "0 \<le> poly_area thin_rectangle"
  by (simp_all add: thin_rectangle_def)

lemma thin_regularity: "compute_regularity_index thin_rectangle (Inr (471 / 1000))"
proof -
  have "py_round_admits (8 / 17) 3 (471 / 1000)"
    by (simp add: py_round_admits_def Let_def)
  then show ?thesis
    unfolding regularity_nonzero [OF thin_lengths] thin_clamp by blast
qed

lemma thin_not_clamp: "\<not> compute_regularity_index thin_rectangle (Inr (8 / 17))"
proof -
  have "\<lfloor>8000 / 17 :: real\<rfloor> = 470" by (simp add: floor_eq_iff)
  then have "\<not> py_round_admits (8 / 17) 3 (8 / 17)"
    by (simp add: py_round_admits_def Let_def)
  then show ?thesis
    unfolding regularity_nonzero [OF thin_lengths] thin_clamp by blast
qed

lemma sqrt_600_bounds: "2449 / 100 < sqrt 600 \<and> sqrt 600 < 245 / 10"
proof
  show "2449 / 100 < sqrt 600"
    by (rule real_less_rsqrt) (simp add: power2_eq_square)
  show "sqrt 600 < 245 / 10"
    by (rule real_less_lsqrt) (simp_all add: power2_eq_square)
qed

lemma mock_regularity: "compute_regularity_index (snd (resolve_parcel inp)) (Inr (891 / 1000))"
proof -
  let ?p = "snd (resolve_parcel inp)"
  let ?x = "4 * sqrt 600 / 110 :: real"
  have l: "poly_length ?p \<noteq> 0" "0 \<le> poly_area ?p"
    by (simp_all add: resolve_parcel_def)
  have v: "4 * sqrt (poly_area ?p) / poly_length ?p = ?x"
    by (simp add: resolve_parcel_def)
  from sqrt_600_bounds have b: "8905 / 10000 < ?x" "?x < 891 / 1000"
    by simp_all
  then have c: "clamp ?x 0 1 = ?x"
    by (simp add: clamp_def)
  have "\<bar>891 - ?x * 1000\<bar> \<le> 1 / 2 + 1 / 1000"
    using b unfolding abs_le_iff by simp
  then have "py_round_admits ?x 3 (891 / 1000)"
    by (simp add: py_round_admits_def Let_def)
  then show ?thesis
    unfolding regularity_nonzero [OF l] v c by blast
qed

text \<open>
  C7, as amended. For every polygon whose area is not negative, or whose perimeter is 0,
  \<^verbatim>\<open>compute_regularity_index\<close> returns a value, and every value it can return lies in
  \<open>[0, 1]\<close> and is a whole number of thousandths: 0 when the perimeter is 0, and otherwise
  \<open>clamp (4 * sqrt area / perimeter) 0 1\<close> rounded to three decimal places, at most 0.000501
  away from the clamped ratio. It never raises on these inputs and never divides by zero.
\<close>

theorem regularity_index_rounded:
  "0 \<le> poly_area p \<or> poly_length p = 0 \<Longrightarrow>
     (\<exists>r. compute_regularity_index p (Inr r))
     \<and> (compute_regularity_index p res \<longrightarrow>
          (\<exists>r. res = Inr r \<and> 0 \<le> r \<and> r \<le> 1 \<and> (\<exists>k::int. r = of_int k / 1000)
             \<and> (if poly_length p = 0 then r = 0
                 else \<bar>r - clamp (4 * sqrt (poly_area p) / poly_length p) 0 1\<bar>
                        \<le> 501 / 1000000)))"
proof (cases "poly_length p = 0")
  case True
  have "(0::real) = of_int 0 / 1000" by simp
  then have "\<exists>k::int. (0::real) = of_int k / 1000" by (rule exI)
  with True show ?thesis
    by (simp add: compute_regularity_index_def Let_def)
next
  case False
  assume "0 \<le> poly_area p \<or> poly_length p = 0"
  with False have a: "0 \<le> poly_area p" by simp
  let ?c = "clamp (4 * sqrt (poly_area p) / poly_length p) 0 1"
  note eq = regularity_nonzero [OF False a]
  have ex: "\<exists>r. compute_regularity_index p (Inr r)"
    using admits_nearest [of ?c 3] unfolding eq by blast
  have props: "\<exists>r. res = Inr r \<and> 0 \<le> r \<and> r \<le> 1 \<and> (\<exists>k::int. r = of_int k / 1000)
             \<and> \<bar>r - ?c\<bar> \<le> 501 / 1000000"
    if h: "compute_regularity_index p res"
  proof -
    from h obtain r where r: "res = Inr r" "py_round_admits ?c 3 r"
      unfolding eq by blast
    from admits_unit [OF r(2)] clamp_unit_bounds [of "4 * sqrt (poly_area p) / poly_length p"]
    have "0 \<le> r \<and> r \<le> 1 \<and> (\<exists>k::int. r = of_int k / 1000) \<and> \<bar>r - ?c\<bar> \<le> 501 / 1000000"
      by blast
    with r(1) show ?thesis by blast
  qed
  from ex props False show ?thesis by auto
qed

text \<open>
  Witness for C7 as amended: the 16 by 1 strip has index 0.471, less than 0.000501 from
  8/17; the ring whose vertices coincide has perimeter 0 and index 0; the 15 by 40 rectangle
  of the mock parcel has index 0.891.
\<close>

theorem regularity_index_rounded_witness:
  "0 \<le> poly_area thin_rectangle
   \<and> compute_regularity_index thin_rectangle (Inr (471 / 1000))
   \<and> \<bar>471 / 1000 - clamp (4 * sqrt (poly_area thin_rectangle) / poly_length thin_rectangle) 0 1\<bar>
       \<le> 501 / 1000000
   \<and> poly_length degenerate_polygon = 0
   \<and> compute_regularity_index degenerate_polygon (Inr 0)
   \<and> compute_regularity_index (snd (resolve_parcel mock_input)) (Inr (891 / 1000))"
proof -
  have a: "0 \<le> poly_area thin_rectangle \<or> poly_length thin_rectangle = 0"
    using thin_lengths(2) by simp
  have z: "poly_length degenerate_polygon = 0"
    by (simp add: degenerate_polygon_def)
  have d: "compute_regularity_index degenerate_polygon (Inr 0)"
    by (simp add: compute_regularity_index_def degenerate_polygon_def Let_def)
  from regularity_index_rounded [OF a, of "Inr (471 / 1000)"] thin_regularity
  obtain r where e: "(Inr (471 / 1000) :: py_error + real) = Inr r"
    and i: "if poly_length thin_rectangle = 0 then r = 0
            else \<bar>r - clamp (4 * sqrt (poly_area thin_rectangle)
                              / poly_length thin_rectangle) 0 1\<bar> \<le> 501 / 1000000"
    by blast
  from e have r: "471 / 1000 = r" by (simp only: sum.inject)
  from i thin_lengths(1)
  have "\<bar>r - clamp (4 * sqrt (poly_area thin_rectangle) / poly_length thin_rectangle) 0 1\<bar>
          \<le> 501 / 1000000"
    by (simp only: if_False)
  then have "\<bar>471 / 1000
          - clamp (4 * sqrt (poly_area thin_rectangle) / poly_length thin_rectangle) 0 1\<bar>
       \<le> 501 / 1000000"
    by (simp only: r)
  with thin_lengths(2) thin_regularity z d mock_regularity [of mock_input]
  show ?thesis by blast
qed

text \<open>
  Counterexample for C7 as stated: for the 16 by 1 strip (area 16, perimeter 34) the clamped
  ratio is 8/17; the function returns 0.471 and cannot return 8/17, which is not a whole
  number of thousandths.
\<close>

theorem regularity_index_counterexample:
  "compute_regularity_index thin_rectangle (Inr (471 / 1000))
   \<and> clamp (4 * sqrt (poly_area thin_rectangle) / poly_length thin_rectangle) 0 1 = 8 / 17
   \<and> \<not> compute_regularity_index thin_rectangle
         (Inr (clamp (4 * sqrt (poly_area thin_rectangle) / poly_length thin_rectangle) 0 1))"
  using thin_regularity thin_not_clamp by (simp add: thin_clamp)

end
